theory Spec2Isabelle
  imports Main "HOL-Library.Sublist"
begin

section \<open>Data model\<close>

text \<open>
  The notebook works on two kinds of objects: the Python \<^verbatim>\<open>AnnData\<close> object
  (\<^verbatim>\<open>adata.X\<close>, \<^verbatim>\<open>adata.obs\<close>, \<^verbatim>\<open>adata.var\<close>) and the R
  \<^verbatim>\<open>SingleCellExperiment\<close> object (assays, row and column names, row and column data).
  The two annotation tables of an \<^verbatim>\<open>AnnData\<close> are pandas data frames: a row index with
  an optional name, and labelled columns. Column labels are kept in an association list,
  because pandas keeps their order and allows a label to occur twice. An entry of a row
  index is a single value or, where the index was built from several columns, the tuple of
  the values of one row.

  The matrix type \<open>'x\<close> and the type \<open>'v\<close> of table entries are left open: none of the
  cells modelled here computes with them.
\<close>

datatype error =
  LengthMismatch      \<comment> \<open>pandas \<^verbatim>\<open>ValueError: Length mismatch\<close>, anndata's length check\<close>
| AttributeError      \<comment> \<open>attribute access to a column label the frame does not have\<close>
| NamesTooLong        \<comment> \<open>R: \<^verbatim>\<open>'names' attribute must be the same length as the vector\<close>\<close>

datatype 'v label = Label 'v | Row "'v list"

record 'v dataframe =
  index :: "'v label list"
  index_name :: "string option"
  columns :: "(string \<times> 'v list) list"

record ('x, 'v) anndata =
  X :: 'x
  obs :: "'v dataframe"
  var :: "'v dataframe"

text \<open>The column labels of a frame, \<^verbatim>\<open>df.columns\<close>.\<close>

definition get_columns :: "'v dataframe \<Rightarrow> string list" where
  "get_columns df = map fst (columns df)"

text \<open>
  \<^verbatim>\<open>df.columns = labels\<close>: pandas replaces the labels position by position and raises
  when their number differs from the number of columns. The column values stay where they are.
\<close>

definition set_columns :: "string list \<Rightarrow> 'v dataframe \<Rightarrow> error + 'v dataframe" where
  "set_columns labels df =
     (if length labels \<noteq> length (columns df) then Inl LengthMismatch
      else Inr (df\<lparr>columns := zip labels (map snd (columns df))\<rparr>))"


section \<open>Python string methods\<close>

text \<open>
  Attribute names are Python strings. They are modelled as \<^typ>\<open>string\<close>, one \<^typ>\<open>char\<close>
  per code point, which covers the code points 0 to 255. On this range \<^verbatim>\<open>str.isspace\<close>
  holds for the code points 9 to 13, 28 to 32, 133 and 160, and \<^verbatim>\<open>str.lower\<close> adds 32 to
  the code points 65 to 90, 192 to 214 and 216 to 222 (215 is the multiplication sign) and
  keeps every other one.
\<close>

definition isspace :: "char \<Rightarrow> bool" where
  "isspace c =
     (let n = (of_char c :: nat)
      in (9 \<le> n \<and> n \<le> 13) \<or> (28 \<le> n \<and> n \<le> 32) \<or> n = 133 \<or> n = 160)"

definition lower_char :: "char \<Rightarrow> char" where
  "lower_char c =
     (let n = (of_char c :: nat)
      in if (65 \<le> n \<and> n \<le> 90) \<or> (192 \<le> n \<and> n \<le> 214) \<or> (216 \<le> n \<and> n \<le> 222)
         then char_of (n + 32) else c)"

text \<open>\<^verbatim>\<open>s.strip()\<close>: drop the whitespace at both ends.\<close>

definition py_strip :: "string \<Rightarrow> string" where
  "py_strip s = rev (dropWhile isspace (rev (dropWhile isspace s)))"

text \<open>\<^verbatim>\<open>s.lower()\<close>.\<close>

definition py_lower :: "string \<Rightarrow> string" where
  "py_lower s = map lower_char s"

text \<open>
  \<^verbatim>\<open>s.replace(old, new)\<close>: every occurrence of \<open>old\<close>, found from left to right without
  overlap, becomes \<open>new\<close>; an empty \<open>old\<close> matches before every character and at the end.
\<close>

function py_replace :: "string \<Rightarrow> string \<Rightarrow> string \<Rightarrow> string" where
  "py_replace old new [] = (if old = [] then new else [])"
| "py_replace old new (c # cs) =
     (if old = [] then new @ c # py_replace old new cs
      else if prefix old (c # cs) then new @ py_replace old new (drop (length old) (c # cs))
      else c # py_replace old new cs)"
  by pat_completeness auto
termination
  by (relation "measure (\<lambda>(old, new, s). length s)") auto


section \<open>The pandas string accessor\<close>

text \<open>
  \<^verbatim>\<open>Index.str.strip()\<close>, \<^verbatim>\<open>Index.str.lower()\<close> and \<^verbatim>\<open>Index.str.replace(pat, repl)\<close>
  apply the string method to every label. The notebook calls \<^verbatim>\<open>replace\<close> with patterns of
  one character, which pandas replaces literally.
\<close>

definition str_strip :: "string list \<Rightarrow> string list" where
  "str_strip labels = map py_strip labels"

definition str_lower :: "string list \<Rightarrow> string list" where
  "str_lower labels = map py_lower labels"

definition str_replace :: "string \<Rightarrow> string \<Rightarrow> string list \<Rightarrow> string list" where
  "str_replace pat repl labels = map (py_replace pat repl) labels"


section \<open>Normalising the observation attribute names\<close>

text \<open>
  \<^verbatim>\<open>adata.obs.columns = adata.obs.columns.str.strip().str.lower().str.replace(' ', '_').str.replace('.', '_')\<close>
\<close>

definition normalize_observation_attribute_names ::
  "('x, 'v) anndata \<Rightarrow> error + ('x, 'v) anndata" where
  "normalize_observation_attribute_names adata =
     (case set_columns
             (str_replace ''.'' ''_''
               (str_replace '' '' ''_''
                 (str_lower (str_strip (get_columns (obs adata))))))
             (obs adata) of
        Inl e \<Rightarrow> Inl e
      | Inr df \<Rightarrow> Inr (adata\<lparr>obs := df\<rparr>))"

text \<open>The transform of one name, in the words of the specification.\<close>

definition trim :: "string \<Rightarrow> string" where
  "trim s = rev (dropWhile isspace (rev (dropWhile isspace s)))"

definition subst_char :: "char \<Rightarrow> char \<Rightarrow> string \<Rightarrow> string" where
  "subst_char a b s = map (\<lambda>c. if c = a then b else c) s"

definition normalize_name :: "string \<Rightarrow> string" where
  "normalize_name s =
     subst_char (CHR ''.'') (CHR ''_'')
       (subst_char (CHR '' '') (CHR ''_'') (map lower_char (trim s)))"

text \<open>What the four steps do to one character that survives the trimming.\<close>

definition name_char :: "char \<Rightarrow> char" where
  "name_char c =
     (let d = lower_char c; e = (if d = CHR '' '' then CHR ''_'' else d)
      in if e = CHR ''.'' then CHR ''_'' else e)"


section \<open>Moving the imported row names into the variable index\<close>

text \<open>
  \<^verbatim>\<open>adata.var = adata.var.rename(columns={"rownames": "gene_ids"})\<close>
  \<^verbatim>\<open>adata.var.index = adata.var.gene_ids\<close>

  \<^verbatim>\<open>df.rename(columns=mapper)\<close> replaces every label that is a key of the mapper and keeps
  the others; a key that is no label is ignored.
\<close>

definition rename_columns :: "(string \<rightharpoonup> string) \<Rightarrow> 'v dataframe \<Rightarrow> 'v dataframe" where
  "rename_columns mapper df =
     df\<lparr>columns :=
          map (\<lambda>(n, vs). (case mapper n of None \<Rightarrow> n | Some n' \<Rightarrow> n', vs)) (columns df)\<rparr>"

text \<open>
  \<^verbatim>\<open>adata.var = df\<close>: anndata accepts a frame with as many rows as the object has
  variables and raises otherwise.
\<close>

definition set_var :: "'v dataframe \<Rightarrow> ('x, 'v) anndata \<Rightarrow> error + ('x, 'v) anndata" where
  "set_var df adata =
     (if length (index df) \<noteq> length (index (var adata)) then Inl LengthMismatch
      else Inr (adata\<lparr>var := df\<rparr>))"

text \<open>
  \<^verbatim>\<open>df.gene_ids\<close>, attribute access to a column: a label that occurs once selects a series
  named by the label, a label that occurs several times selects the sub-frame of these
  columns, and a label that does not occur raises.
\<close>

datatype 'v selection = Series "'v list" string | Frame "(string \<times> 'v list) list"

definition getattr_column :: "string \<Rightarrow> 'v dataframe \<Rightarrow> error + 'v selection" where
  "getattr_column label df =
     (case filter (\<lambda>(n, vs). n = label) (columns df) of
        [] \<Rightarrow> Inl AttributeError
      | [(n, vs)] \<Rightarrow> Inr (Series vs label)
      | cs \<Rightarrow> Inr (Frame cs))"

text \<open>
  \<^verbatim>\<open>df.index = value\<close>: a series becomes the index, which takes the name of the series.
  A frame is accepted as well: its rows, as tuples, become the index, which has no name.
  In both cases the number of new entries must be the number of rows.
\<close>

definition frame_rows :: "(string \<times> 'v list) list \<Rightarrow> 'v list list" where
  "frame_rows cs = transpose (map snd cs)"

definition set_index :: "'v selection \<Rightarrow> 'v dataframe \<Rightarrow> error + 'v dataframe" where
  "set_index sel df =
     (case sel of
        Frame cs \<Rightarrow>
          if length (frame_rows cs) \<noteq> length (index df) then Inl LengthMismatch
          else Inr (df\<lparr>index := map Row (frame_rows cs), index_name := None\<rparr>)
      | Series vs nm \<Rightarrow>
          if length vs \<noteq> length (index df) then Inl LengthMismatch
          else Inr (df\<lparr>index := map Label vs, index_name := Some nm\<rparr>))"

definition move_rownames_to_index :: "('x, 'v) anndata \<Rightarrow> error + ('x, 'v) anndata" where
  "move_rownames_to_index adata =
     (case set_var (rename_columns [''rownames'' \<mapsto> ''gene_ids''] (var adata)) adata of
        Inl e \<Rightarrow> Inl e
      | Inr adata1 \<Rightarrow>
          (case getattr_column ''gene_ids'' (var adata1) of
             Inl e \<Rightarrow> Inl e
           | Inr sel \<Rightarrow>
               (case set_index sel (var adata1) of
                  Inl e \<Rightarrow> Inl e
                | Inr df \<Rightarrow> Inr (adata1\<lparr>var := df\<rparr>))))"

text \<open>
  An object of the shape \<^verbatim>\<open>sc.read_loom\<close> returned in the notebook, cut down to two
  genes and two cells: the column labels are among the ones the notebook prints, the
  entries are sample values.
\<close>

definition loom_adata :: "(nat list list, string) anndata" where
  "loom_adata =
     \<lparr>X = [[3, 0], [0, 7]],
      obs = \<lparr>index = [Label ''0'', Label ''1''], index_name = None,
             columns = [(''Source.Name'', [''s1'', ''s2'']), (''block'', [''b1'', ''b2'']),
                        (''colnames'', [''c1'', ''c2''])]\<rparr>,
      var = \<lparr>index = [Label ''0'', Label ''1''], index_name = None,
             columns = [(''ENSEMBL'', [''ENSMUSG00000102693'', ''ENSMUSG00000064842'']),
                        (''Length'', [''1070'', ''110'']),
                        (''SEQNAME'', [''1'', ''1'']),
                        (''SYMBOL'', [''4933401J01Rik'', ''Gm26206'']),
                        (''rownames'', [''4933401J01Rik'', ''Gm26206''])]\<rparr>\<rparr>"

text \<open>
  The same object with a variable attribute \<^verbatim>\<open>gene_ids\<close> already in the file, next to the
  imported \<^verbatim>\<open>rownames\<close>.
\<close>

definition clash_adata :: "(nat list list, string) anndata" where
  "clash_adata =
     \<lparr>X = [[3, 0], [0, 7]],
      obs = \<lparr>index = [Label ''0'', Label ''1''], index_name = None,
             columns = [(''block'', [''b1'', ''b2''])]\<rparr>,
      var = \<lparr>index = [Label ''0'', Label ''1''], index_name = None,
             columns = [(''gene_ids'', [''ENSMUSG00000102693'', ''ENSMUSG00000064842'']),
                        (''rownames'', [''4933401J01Rik'', ''Gm26206''])]\<rparr>\<rparr>"


section \<open>Renaming the assay on the R side\<close>

text \<open>
  The R object: a named list of assays (a name may be \<^verbatim>\<open>NA\<close>, here \<open>None\<close>), the row and
  column names, and the two annotation tables.
\<close>

record ('x, 'v) sce =
  assays :: "(string option \<times> 'x) list"
  rownames :: "string list"
  colnames :: "string list"
  rowData :: "(string \<times> 'v list) list"
  colData :: "(string \<times> 'v list) list"

text \<open>
  \<^verbatim>\<open>names(x) <- value\<close> on a list: the names are \<open>value\<close>, filled up with \<^verbatim>\<open>NA\<close> to the
  length of the list; more names than elements is an error. The elements stay.
\<close>

definition names_assign ::
  "string list \<Rightarrow> (string option \<times> 'x) list \<Rightarrow> error + (string option \<times> 'x) list" where
  "names_assign val xs =
     (if length xs < length val then Inl NamesTooLong
      else Inr (zip (map Some val @ replicate (length xs - length val) None) (map snd xs)))"

text \<open>\<^verbatim>\<open>assays(x) <- value\<close> stores the list; the matrices are the ones the object had.\<close>

definition assays_assign :: "(string option \<times> 'x) list \<Rightarrow> ('x, 'v) sce \<Rightarrow> ('x, 'v) sce" where
  "assays_assign val x = x\<lparr>assays := val\<rparr>"

text \<open>\<^verbatim>\<open>names(assays(adata)) <- "counts"\<close>, for any new name.\<close>

definition rename_matrix :: "string \<Rightarrow> ('x, 'v) sce \<Rightarrow> error + ('x, 'v) sce" where
  "rename_matrix new_name x =
     (case names_assign [new_name] (assays x) of
        Inl e \<Rightarrow> Inl e
      | Inr val \<Rightarrow> Inr (assays_assign val x))"

text \<open>
  An object of the shape the notebook passes to R, cut down to two genes and two cells
  with sample values.
\<close>

definition bridge_sce :: "(nat list list, string) sce" where
  "bridge_sce =
     \<lparr>assays = [(Some ''X'', [[3, 0], [0, 7]])],
      rownames = [''ENSMUSG00000102693'', ''ENSMUSG00000064842''],
      colnames = [''SLX-9555.N701_S502.C89V9ANXX.s_1.r_1'',
                  ''SLX-9555.N701_S503.C89V9ANXX.s_1.r_1''],
      rowData = [(''Length'', [''1070'', ''110''])],
      colData = [(''Source.Name'', [''s1'', ''s2'']), (''block'', [''b1'', ''b2''])]\<rparr>"


section \<open>Facts about the string methods\<close>

lemma py_replace_single: "py_replace [a] [b] s = subst_char a b s"
  by (induction s) (auto simp: subst_char_def)

lemma isspace_lower_char: "isspace (lower_char c) = isspace c"
  by (auto simp: isspace_def lower_char_def Let_def)

lemma lower_char_idem: "lower_char (lower_char c) = lower_char c"
  by (auto simp: lower_char_def Let_def)

lemma lower_char_underscore: "lower_char (CHR ''_'') = CHR ''_''"
  by (simp add: lower_char_def)

lemma isspace_underscore: "\<not> isspace (CHR ''_'')"
  by (simp add: isspace_def)

lemma py_strip_trim: "py_strip s = trim s"
  by (simp add: py_strip_def trim_def)

lemma dropWhile_keeps: "xs = [] \<or> \<not> P (hd xs) \<Longrightarrow> dropWhile P xs = xs"
  by (cases xs) auto

text \<open>A string that neither starts nor ends with whitespace is left alone by the trimming.\<close>

lemma trim_fixed:
  assumes "s = [] \<or> (\<not> isspace (hd s) \<and> \<not> isspace (last s))"
  shows "trim s = s"
proof -
  from assms have 1: "dropWhile isspace s = s"
    by (intro dropWhile_keeps) auto
  from assms have "rev s = [] \<or> \<not> isspace (hd (rev s))"
    by (auto simp: hd_rev)
  then have 2: "dropWhile isspace (rev s) = rev s"
    by (rule dropWhile_keeps)
  show ?thesis by (simp add: trim_def 1 2)
qed

text \<open>A trimmed string neither starts nor ends with whitespace.\<close>

lemma trim_ends:
  "trim s = [] \<or> (\<not> isspace (hd (trim s)) \<and> \<not> isspace (last (trim s)))"
proof (cases "trim s = []")
  case True
  then show ?thesis by simp
next
  case False
  define t where "t = dropWhile isspace s"
  have ts: "trim s = rev (dropWhile isspace (rev t))"
    by (simp add: trim_def t_def)
  with False have t: "t \<noteq> []" by auto
  then obtain c cs where tc: "t = c # cs" by (cases t) auto
  have "\<not> isspace (hd t)"
    unfolding t_def using t [unfolded t_def] by (rule hd_dropWhile)
  with tc have c: "\<not> isspace c" by simp
  have "dropWhile isspace (rev t) = dropWhile isspace (rev cs) @ [c]"
    using c by (simp add: tc dropWhile_append3)
  with ts have eq: "trim s = c # rev (dropWhile isspace (rev cs))" by simp
  from False ts have u: "dropWhile isspace (rev t) \<noteq> []" by simp
  then have "\<not> isspace (hd (dropWhile isspace (rev t)))" by (rule hd_dropWhile)
  with u ts have l: "\<not> isspace (last (trim s))" by (simp add: last_rev)
  from eq c l show ?thesis by simp
qed

lemma ends_map:
  assumes "s = [] \<or> (\<not> isspace (hd s) \<and> \<not> isspace (last s))"
    and "\<And>c. \<not> isspace c \<Longrightarrow> \<not> isspace (h c)"
  shows "map h s = [] \<or> (\<not> isspace (hd (map h s)) \<and> \<not> isspace (last (map h s)))"
  using assms by (cases "s = []") (simp_all add: hd_map last_map)

lemma normalize_name_map: "normalize_name s = map name_char (trim s)"
  by (simp add: normalize_name_def subst_char_def name_char_def Let_def)

lemma name_char_idem: "name_char (name_char c) = name_char c"
  by (simp add: name_char_def Let_def lower_char_underscore lower_char_idem)

lemma name_char_isspace: "\<not> isspace c \<Longrightarrow> \<not> isspace (name_char c)"
  by (simp add: name_char_def Let_def isspace_underscore isspace_lower_char)

lemma normalize_name_idem: "normalize_name (normalize_name s) = normalize_name s"
proof -
  have "trim (map name_char (trim s)) = map name_char (trim s)"
    by (rule trim_fixed, rule ends_map, rule trim_ends, rule name_char_isspace)
  then show ?thesis
    by (simp add: normalize_name_map name_char_idem)
qed


section \<open>Facts about the normalisation cell\<close>

text \<open>The chain of accessor calls is the transform of one name, applied to every label.\<close>

lemma normalize_columns:
  "str_replace ''.'' ''_'' (str_replace '' '' ''_'' (str_lower (str_strip labels)))
     = map normalize_name labels"
  by (simp add: str_replace_def str_lower_def str_strip_def py_lower_def py_strip_trim
      py_replace_single normalize_name_def)

lemma zip_relabel:
  "zip (map (f \<circ> fst) cs) (map snd cs) = map (\<lambda>(n, vs). (f n, vs)) cs"
  by (induction cs) auto

text \<open>The assignment never raises, and the result is the input with relabelled columns.\<close>

lemma normalize_result:
  "normalize_observation_attribute_names adata =
     Inr (adata\<lparr>obs := (obs adata)\<lparr>columns :=
        map (\<lambda>(n, vs). (normalize_name n, vs)) (columns (obs adata))\<rparr>\<rparr>)"
  by (simp add: normalize_observation_attribute_names_def normalize_columns get_columns_def
      set_columns_def zip_relabel)

text \<open>
  C1. The cell maps every observation attribute name by: trim the whitespace at both ends,
  convert to lowercase, replace each space by an underscore, replace each period by an
  underscore. It never raises. The name \<^verbatim>\<open>Source.Name\<close> becomes \<^verbatim>\<open>source_name\<close>.
\<close>

theorem normalize_maps_every_name:
  "(\<exists>adata'. normalize_observation_attribute_names adata = Inr adata' \<and>
       get_columns (obs adata') = map normalize_name (get_columns (obs adata)))
   \<and> normalize_name ''Source.Name'' = ''source_name''"
proof
  show "\<exists>adata'. normalize_observation_attribute_names adata = Inr adata' \<and>
       get_columns (obs adata') = map normalize_name (get_columns (obs adata))"
    by (simp add: normalize_result get_columns_def comp_def case_prod_unfold)
  show "normalize_name ''Source.Name'' = ''source_name''"
    by code_simp
qed

text \<open>
  C2. Normalising twice gives the same dataset as normalising once: the second run returns
  the result of the first unchanged.
\<close>

theorem normalize_idempotent:
  "\<exists>adata'. normalize_observation_attribute_names adata = Inr adata' \<and>
     normalize_observation_attribute_names adata' = Inr adata'"
  by (simp add: normalize_result comp_def case_prod_unfold normalize_name_idem)

text \<open>
  C8. The normalisation changes the observation attribute names only: the value sequences
  of the observation attributes and their order, the observation identifiers, the matrix
  and the whole variable table (identifiers and attributes) are those of the input.
\<close>

theorem normalize_changes_names_only:
  "\<exists>adata'. normalize_observation_attribute_names adata = Inr adata' \<and>
     map snd (columns (obs adata')) = map snd (columns (obs adata)) \<and>
     index (obs adata') = index (obs adata) \<and>
     index_name (obs adata') = index_name (obs adata) \<and>
     X adata' = X adata \<and>
     var adata' = var adata"
  by (simp add: normalize_result comp_def case_prod_unfold)


section \<open>Facts about the row-names cell\<close>

lemma filter_renamed:
  assumes "g \<notin> fst ` set cs" "r \<noteq> g"
  shows "filter (\<lambda>(n, vs). n = g)
           (map (\<lambda>(n, vs). (case [r \<mapsto> g] n of None \<Rightarrow> n | Some n' \<Rightarrow> n', vs)) cs)
         = map (\<lambda>(n, vs). (g, vs)) (filter (\<lambda>(n, vs). n = r) cs)"
  using assms by (induction cs) auto

lemma labels_renamed:
  assumes "r \<noteq> g"
  shows "r \<notin> fst ` set (map (\<lambda>(n, vs).
            (case [r \<mapsto> g] n of None \<Rightarrow> n | Some n' \<Rightarrow> n', vs)) cs)"
  using assms by (induction cs) (auto split: if_splits)

lemma values_renamed:
  "map snd (map (\<lambda>(n, vs). (case m n of None \<Rightarrow> n | Some n' \<Rightarrow> n', vs)) cs) = map snd cs"
  by (induction cs) auto

text \<open>
  C4, as amended. On a dataset whose variable identifiers were imported as the variable
  attribute \<^verbatim>\<open>rownames\<close> (one column of that label, as long as the table) and which has no
  variable attribute \<^verbatim>\<open>gene_ids\<close> yet, the cell succeeds; afterwards the identifiers are
  the variable index, which is named \<^verbatim>\<open>gene_ids\<close>, and no variable attribute is labelled
  \<^verbatim>\<open>rownames\<close> any more. The column itself stays in the table under the label
  \<^verbatim>\<open>gene_ids\<close>; the attribute values, the matrix and the observation table are untouched.
\<close>

theorem rownames_moved_to_index:
  assumes one: "filter (\<lambda>(n, vs). n = ''rownames'') (columns (var adata)) = [(''rownames'', ids)]"
    and len: "length ids = length (index (var adata))"
    and fresh: "''gene_ids'' \<notin> set (get_columns (var adata))"
  shows "\<exists>adata'. move_rownames_to_index adata = Inr adata' \<and>
           index (var adata') = map Label ids \<and>
           index_name (var adata') = Some ''gene_ids'' \<and>
           ''rownames'' \<notin> set (get_columns (var adata')) \<and>
           filter (\<lambda>(n, vs). n = ''gene_ids'') (columns (var adata')) = [(''gene_ids'', ids)] \<and>
           map snd (columns (var adata')) = map snd (columns (var adata)) \<and>
           X adata' = X adata \<and> obs adata' = obs adata"
proof -
  let ?cs = "columns (var adata)"
  let ?cs' = "map (\<lambda>(n, vs).
      (case [''rownames'' \<mapsto> ''gene_ids''] n of None \<Rightarrow> n | Some n' \<Rightarrow> n', vs)) ?cs"
  from fresh have f: "''gene_ids'' \<notin> fst ` set ?cs" by (simp add: get_columns_def)
  have sel: "filter (\<lambda>(n, vs). n = ''gene_ids'') ?cs' = [(''gene_ids'', ids)]"
    using filter_renamed [OF f, of "''rownames''"] one by simp
  have gone: "''rownames'' \<notin> fst ` set ?cs'"
    by (rule labels_renamed) simp
  have vals: "map snd ?cs' = map snd ?cs" by (rule values_renamed)
  show ?thesis
    using sel gone vals len
    by (simp add: move_rownames_to_index_def set_var_def rename_columns_def
        getattr_column_def set_index_def get_columns_def)
qed

theorem rownames_moved_to_index_witness:
  "filter (\<lambda>(n, vs). n = ''rownames'') (columns (var loom_adata))
     = [(''rownames'', [''4933401J01Rik'', ''Gm26206''])] \<and>
   length [''4933401J01Rik'', ''Gm26206''] = length (index (var loom_adata)) \<and>
   ''gene_ids'' \<notin> set (get_columns (var loom_adata)) \<and>
   (\<exists>adata'. move_rownames_to_index loom_adata = Inr adata' \<and>
      index (var adata') = [Label ''4933401J01Rik'', Label ''Gm26206''] \<and>
      index_name (var adata') = Some ''gene_ids'' \<and>
      ''rownames'' \<notin> set (get_columns (var adata')))"
proof -
  have one: "filter (\<lambda>(n, vs). n = ''rownames'') (columns (var loom_adata))
     = [(''rownames'', [''4933401J01Rik'', ''Gm26206''])]"
    by (simp add: loom_adata_def)
  have len: "length [''4933401J01Rik'', ''Gm26206''] = length (index (var loom_adata))"
    by (simp add: loom_adata_def)
  have fresh: "''gene_ids'' \<notin> set (get_columns (var loom_adata))"
    by (simp add: loom_adata_def get_columns_def)
  from rownames_moved_to_index [OF one len fresh] one len fresh show ?thesis
    by auto
qed

text \<open>
  C4, as stated, fails where the variable table already has an attribute \<^verbatim>\<open>gene_ids\<close>:
  after the renaming two columns carry that label, the attribute access selects both, and
  the index becomes the row tuples of the two columns, without a name. The identifiers
  are not in the identifier slot.
\<close>

theorem rownames_clash_counterexample:
  "move_rownames_to_index clash_adata =
     Inr (clash_adata\<lparr>var :=
       \<lparr>index = [Row [''ENSMUSG00000102693'', ''4933401J01Rik''],
                 Row [''ENSMUSG00000064842'', ''Gm26206'']],
        index_name = None,
        columns = [(''gene_ids'', [''ENSMUSG00000102693'', ''ENSMUSG00000064842'']),
                   (''gene_ids'', [''4933401J01Rik'', ''Gm26206''])]\<rparr>\<rparr>)
   \<and> [Row [''ENSMUSG00000102693'', ''4933401J01Rik''], Row [''ENSMUSG00000064842'', ''Gm26206'']]
       \<noteq> [Label ''4933401J01Rik'', Label ''Gm26206'']"
  by (simp add: move_rownames_to_index_def set_var_def rename_columns_def
      getattr_column_def set_index_def frame_rows_def clash_adata_def)


section \<open>Facts about the assay-name cell\<close>

text \<open>
  C5. On an object with a primary matrix (a first assay), renaming to \<^verbatim>\<open>counts\<close>
  succeeds; the tag of the primary matrix is then exactly \<^verbatim>\<open>counts\<close>, and the matrix
  values, the row and column names and both annotation tables are those of the input.
  Further assays, where there are any, keep their values and lose their names.
\<close>

theorem matrix_renamed:
  assumes "assays x = (tag, m) # rest"
  shows "\<exists>x'. rename_matrix ''counts'' x = Inr x' \<and>
           assays x' = (Some ''counts'', m) # map (\<lambda>(t, y). (None, y)) rest \<and>
           map snd (assays x') = map snd (assays x) \<and>
           rownames x' = rownames x \<and> colnames x' = colnames x \<and>
           rowData x' = rowData x \<and> colData x' = colData x"
proof -
  have "zip (replicate (length rest) None) (map snd rest) = map (\<lambda>(t, y). (None, y)) rest"
    by (induction rest) auto
  then show ?thesis using assms
    by (simp add: rename_matrix_def names_assign_def assays_assign_def comp_def
        case_prod_unfold)
qed

theorem matrix_renamed_witness:
  "assays bridge_sce = (Some ''X'', [[3, 0], [0, 7]]) # [] \<and>
   (\<exists>x'. rename_matrix ''counts'' bridge_sce = Inr x' \<and>
      assays x' = [(Some ''counts'', [[3, 0], [0, 7]])] \<and>
      colData x' = colData bridge_sce)"
proof -
  have a: "assays bridge_sce = (Some ''X'', [[3, 0], [0, 7]]) # []"
    by (simp add: bridge_sce_def)
  from matrix_renamed [OF a] a show ?thesis by auto
qed

end
